theory Spec2Isabelle
  imports Complex_Main
begin

section \<open>Signals and the strategy combiner (strategy.py)\<close>

text \<open>
  Python floats are idealised as real numbers throughout: every comparison and every
  arithmetic step of the source is kept, rounding of float64 is not modelled.
\<close>

datatype SignalType = BUY | SELL | HOLD | STRONG_BUY | STRONG_SELL

text \<open>
  \<open>StrategyManager._combine_strategy_signals\<close>: the first branch is taken when the two
  enum values are equal and not \<open>HOLD\<close>; inside it the strong variant is chosen by the
  test \<open>tech_signal == SignalType.BUY\<close>.
\<close>

definition combine_strategy_signals :: "SignalType \<Rightarrow> SignalType \<Rightarrow> real \<Rightarrow> SignalType" where
  "combine_strategy_signals tech_signal momentum_signal strength =
     (if tech_signal = momentum_signal \<and> tech_signal \<noteq> HOLD then
        (if strength \<ge> 0.7
         then (if tech_signal = BUY then STRONG_BUY else STRONG_SELL)
         else tech_signal)
      else if strength \<ge> 0.5 then tech_signal
      else HOLD)"

text \<open>The direction of a signal, as the specification speaks of it.\<close>

datatype Direction = Up | Down | Flat

fun direction :: "SignalType \<Rightarrow> Direction" where
  "direction BUY = Up"
| "direction STRONG_BUY = Up"
| "direction SELL = Down"
| "direction STRONG_SELL = Down"
| "direction HOLD = Flat"

fun strong_variant :: "Direction \<Rightarrow> SignalType" where
  "strong_variant Up = STRONG_BUY"
| "strong_variant Down = STRONG_SELL"
| "strong_variant Flat = HOLD"

section \<open>Float values that are not numbers\<close>

text \<open>
  pandas columns hold \<open>NaN\<close> where a shifted value is missing and IEEE infinities where a
  division has a zero divisor. Comparisons with \<open>NaN\<close> are false.
\<close>

datatype fval = Fin real | PInf | NInf | NaN

fun fgt :: "fval \<Rightarrow> real \<Rightarrow> bool" where
  "fgt (Fin x) c = (x > c)"
| "fgt PInf c = True"
| "fgt NInf c = False"
| "fgt NaN c = False"

fun flt :: "fval \<Rightarrow> real \<Rightarrow> bool" where
  "flt (Fin x) c = (x < c)"
| "flt PInf c = False"
| "flt NInf c = True"
| "flt NaN c = False"

definition fdiv :: "real \<Rightarrow> real \<Rightarrow> fval" where
  "fdiv a b = (if b \<noteq> 0 then Fin (a / b)
               else if a > 0 then PInf else if a < 0 then NInf else NaN)"

fun fsub :: "fval \<Rightarrow> real \<Rightarrow> fval" where
  "fsub (Fin x) c = Fin (x - c)"
| "fsub v c = v"

fun fabs :: "fval \<Rightarrow> fval" where
  "fabs (Fin x) = Fin \<bar>x\<bar>"
| "fabs PInf = PInf"
| "fabs NInf = PInf"
| "fabs NaN = NaN"

text \<open>Python's \<open>int(x)\<close> on a float truncates towards zero.\<close>

definition py_int :: "real \<Rightarrow> int" where
  "py_int x = (if x \<ge> 0 then \<lfloor>x\<rfloor> else \<lceil>x\<rceil>)"

section \<open>Indicators (indicators.py)\<close>

text \<open>
  Every indicator is wrapped by the module's own guard, which returns \<open>None\<close> for an
  empty series. \<open>momentum\<close> is \<open>data - data.shift(period)\<close> and \<open>price_change\<close> is
  \<open>data.pct_change(periods=period)\<close>, that is \<open>data / data.shift(period) - 1\<close>: a
  fraction, not a percentage.
\<close>

definition momentum :: "real list \<Rightarrow> nat \<Rightarrow> fval list option" where
  "momentum data period =
     (if data = [] then None
      else Some (map (\<lambda>i. if i < period then NaN else Fin (data ! i - data ! (i - period)))
                     [0..<length data]))"

definition price_change :: "real list \<Rightarrow> nat \<Rightarrow> fval list option" where
  "price_change data period =
     (if data = [] then None
      else Some (map (\<lambda>i. if i < period then NaN
                           else fsub (fdiv (data ! i) (data ! (i - period))) 1)
                     [0..<length data]))"

section \<open>Analyzer entry points and their guard (strategy.py)\<close>

record bar =
  date :: int
  close_price :: real

text \<open>
  The rationale strings of the source embed formatted numbers; each constructor stands
  for one message template.
\<close>

datatype Rationale =
    Data_empty
  | Data_insufficient
  | Momentum_strong_up
  | Momentum_up
  | Momentum_strong_down
  | Momentum_down
  | Momentum_unclear
  | Momentum_error

type_synonym signal_result = "SignalType \<times> real \<times> Rationale"

text \<open>
  The decorator \<open>validate_data\<close> looks at the first positional argument only. The result
  \<open>Some r\<close> means that the wrapper returns \<open>r\<close> without calling the wrapped function,
  \<open>None\<close> that it calls it.
\<close>

datatype pyarg = Instance | Frame "bar list"

definition validate_data :: "pyarg list \<Rightarrow> signal_result option" where
  "validate_data args =
     (case args of
        Frame df # _ \<Rightarrow>
          (if df = [] then Some (HOLD, 0, Data_empty)
           else if length df < 20 then Some (HOLD, 0, Data_insufficient)
           else None)
      | _ \<Rightarrow> None)"

text \<open>
  The body of \<open>MomentumStrategy.analyze_momentum\<close>. On an empty frame the indicators
  return \<open>None\<close> and reading the last row raises; the \<open>except\<close> clause turns that
  into a Hold with the error message.
\<close>

definition analyze_momentum_body :: "bar list \<Rightarrow> signal_result" where
  "analyze_momentum_body df =
     (case (momentum (map close_price df) 10, price_change (map close_price df) 1) of
        (Some ms, Some pcs) \<Rightarrow>
          (let momentum_value = last ms; price_change_value = last pcs in
           if fgt momentum_value 5 \<and> fgt price_change_value 2
             then (STRONG_BUY, 0.8, Momentum_strong_up)
           else if fgt momentum_value 2 \<and> fgt price_change_value 1
             then (BUY, 0.6, Momentum_up)
           else if flt momentum_value (-5) \<and> flt price_change_value (-2)
             then (STRONG_SELL, 0.8, Momentum_strong_down)
           else if flt momentum_value (-2) \<and> flt price_change_value (-1)
             then (SELL, 0.6, Momentum_down)
           else (HOLD, 0, Momentum_unclear))
      | _ \<Rightarrow> (HOLD, 0, Momentum_error))"

text \<open>
  The decorated method as a caller reaches it, \<open>strategy.analyze_momentum(df)\<close>: the
  wrapper receives the instance first and the frame second.
\<close>

definition analyze_momentum :: "bar list \<Rightarrow> signal_result" where
  "analyze_momentum df =
     (case validate_data [Instance, Frame df] of
        Some r \<Rightarrow> r
      | None \<Rightarrow> analyze_momentum_body df)"

section \<open>Position sizing (risk\_control.py)\<close>

record TradingConfig =
  position_ratio :: real
  max_single_position :: real
  trade_amount :: real
  stop_loss_ratio :: real
  take_profit_ratio :: real

datatype py_error = Volume_error

record SizeResult =
  target_amount :: real
  actual_amount :: real
  size_volume :: int
  size_price :: real
  size_position_ratio :: real

text \<open>
  \<open>PositionManager._calculate_fixed_amount_position\<close>. With a zero price the
  computation of the volume raises (the division, or \<open>int\<close> of an infinity); the
  caller's \<open>except\<close> clause reports the error.
\<close>

definition calculate_fixed_amount_position ::
  "TradingConfig \<Rightarrow> real \<Rightarrow> real \<Rightarrow> py_error + SizeResult" where
  "calculate_fixed_amount_position cfg price available_cash =
     (let target = (if available_cash < trade_amount cfg
                    then available_cash * 0.95 else trade_amount cfg)
      in if price = 0 then Inl Volume_error
         else
           (let vol = py_int (target / price / 100) * 100;
                actual = real_of_int vol * price
            in Inr \<lparr> target_amount = target, actual_amount = actual, size_volume = vol,
                     size_price = price,
                     size_position_ratio =
                       (if available_cash > 0 then actual / available_cash else 0) \<rparr>))"

section \<open>The backtest engine (backtest.py)\<close>

record Trade =
  timestamp :: int
  action :: string
  price :: real
  volume :: int
  amount :: real
  commission :: real
  reason :: string

record Position =
  pos_volume :: int
  avg_price :: real
  market_value :: real
  unrealized_pnl :: real
  realized_pnl :: real

record EquityPoint =
  eq_date :: int
  equity :: real
  cash :: real
  position_value :: real

text \<open>
  The constructor arguments and the configuration the engine reads. The module
  \<open>config\<close> is not part of the sources, its values are parameters.
\<close>

record Params =
  initial_capital :: real
  commission_rate :: real
  trading_config :: TradingConfig

text \<open>
  The mutable attributes of \<open>BacktestEngine\<close>. The list \<open>daily_returns\<close> is left
  out: nothing below reads it, and no other attribute depends on it. Where the source
  divides by a previous equity of zero to fill it, the model simply goes on.
\<close>

record Engine =
  current_capital :: real
  current_position :: "Position option"
  trades :: "Trade list"
  daily_equity :: "EquityPoint list"

record Signal =
  signal_type :: SignalType
  signal_strength :: real
  sig_reason :: string
  sig_price :: real

definition reset_state :: "Params \<Rightarrow> Engine" where
  "reset_state p =
     \<lparr> current_capital = initial_capital p, current_position = None,
       trades = [], daily_equity = [] \<rparr>"

text \<open>
  \<open>_execute_buy\<close>. Both rejections return before anything is assigned; with a zero
  price the computation of the volume raises inside the \<open>try\<close>, again before anything
  is assigned, and the \<open>except\<close> clause only logs.
\<close>

definition buy_volume :: "Params \<Rightarrow> Engine \<Rightarrow> real \<Rightarrow> real \<Rightarrow> int" where
  "buy_volume p s px strength =
     (let available_cash = current_capital s;
          base_ratio = position_ratio (trading_config p);
          adjusted_ratio = base_ratio * strength;
          max_ratio = max_single_position (trading_config p);
          ratio = min adjusted_ratio max_ratio;
          target = available_cash * ratio
      in py_int (target / px / 100) * 100)"

definition buy_total_cost :: "Params \<Rightarrow> Engine \<Rightarrow> real \<Rightarrow> real \<Rightarrow> real" where
  "buy_total_cost p s px strength =
     (let actual = real_of_int (buy_volume p s px strength) * px;
          fee = actual * commission_rate p
      in actual + fee)"

definition execute_buy :: "Params \<Rightarrow> Engine \<Rightarrow> int \<Rightarrow> real \<Rightarrow> real \<Rightarrow> string \<Rightarrow> Engine" where
  "execute_buy p s dt px strength why =
     (let available_cash = current_capital s in
      if px = 0 then s
      else
        (let vol = buy_volume p s px strength in
         if vol < 100 then s
         else
           (let actual = real_of_int vol * px;
                fee = actual * commission_rate p;
                total_cost = buy_total_cost p s px strength
            in if total_cost > available_cash then s
               else s\<lparr> current_capital := current_capital s - total_cost,
                       current_position :=
                         Some \<lparr> pos_volume = vol, avg_price = px, market_value = actual,
                                unrealized_pnl = 0, realized_pnl = 0 \<rparr>,
                       trades := trades s @
                         [\<lparr> timestamp = dt, action = ''buy'', price = px, volume = vol,
                            amount = actual, commission = fee, reason = why \<rparr>] \<rparr>)))"

text \<open>The three tiers of \<open>_execute_sell\<close>; the last constant is \<open>0.33\<close> in the source.\<close>

definition sell_ratio :: "real \<Rightarrow> real" where
  "sell_ratio strength =
     (if strength \<ge> 0.8 then 1.0 else if strength \<ge> 0.5 then 0.5 else 0.33)"

definition sell_volume :: "Position \<Rightarrow> real \<Rightarrow> int" where
  "sell_volume pos strength =
     py_int (real_of_int (pos_volume pos) * sell_ratio strength / 100) * 100"

definition execute_sell :: "Params \<Rightarrow> Engine \<Rightarrow> int \<Rightarrow> real \<Rightarrow> real \<Rightarrow> string \<Rightarrow> Engine" where
  "execute_sell p s dt px strength why =
     (case current_position s of
        None \<Rightarrow> s
      | Some pos \<Rightarrow>
          (let sv = sell_volume pos strength in
           if sv < 100 then s
           else
             (let sell_amount = real_of_int sv * px;
                  fee = sell_amount * commission_rate p;
                  net_amount = sell_amount - fee
              in s\<lparr> current_capital := current_capital s + net_amount,
                     current_position :=
                       (if sv = pos_volume pos then None
                        else Some (pos\<lparr> pos_volume := pos_volume pos - sv,
                                        market_value := real_of_int (pos_volume pos - sv) * px \<rparr>)),
                     trades := trades s @
                       [\<lparr> timestamp = dt, action = ''sell'', price = px, volume = sv,
                          amount = sell_amount, commission = fee, reason = why \<rparr>] \<rparr>)))"

definition check_stop_conditions :: "Params \<Rightarrow> Engine \<Rightarrow> real \<Rightarrow> string option" where
  "check_stop_conditions p s current_price =
     (case current_position s of
        None \<Rightarrow> None
      | Some pos \<Rightarrow>
          (let entry_price = avg_price pos;
               stop_loss_price = entry_price * (1 - stop_loss_ratio (trading_config p));
               take_profit_price = entry_price * (1 + take_profit_ratio (trading_config p))
           in if current_price \<le> stop_loss_price then Some ''stop_loss''
              else if current_price \<ge> take_profit_price then Some ''take_profit''
              else None))"

definition execute_trade :: "Params \<Rightarrow> Engine \<Rightarrow> int \<Rightarrow> real \<Rightarrow> string \<Rightarrow> Engine" where
  "execute_trade p s dt px act =
     (if act = ''stop_loss'' \<or> act = ''take_profit'' then execute_sell p s dt px 1.0 act
      else s)"

definition execute_trading_logic :: "Params \<Rightarrow> Engine \<Rightarrow> int \<Rightarrow> real \<Rightarrow> Signal \<Rightarrow> Engine" where
  "execute_trading_logic p s dt px sg =
     (if (signal_type sg = BUY \<or> signal_type sg = STRONG_BUY) \<and> current_position s = None
        then execute_buy p s dt px (signal_strength sg) (sig_reason sg)
      else if (signal_type sg = SELL \<or> signal_type sg = STRONG_SELL) \<and> current_position s \<noteq> None
        then execute_sell p s dt px (signal_strength sg) (sig_reason sg)
      else s)"

definition update_daily_equity :: "Engine \<Rightarrow> int \<Rightarrow> real \<Rightarrow> Engine" where
  "update_daily_equity s dt px =
     (let cash_now = current_capital s;
          pv = (case current_position s of
                  None \<Rightarrow> 0
                | Some pos \<Rightarrow> real_of_int (pos_volume pos) * px);
          total_equity = cash_now + pv
      in s\<lparr> current_position :=
               map_option (\<lambda>pos. pos\<lparr> market_value := pv,
                   unrealized_pnl := pv - real_of_int (pos_volume pos) * avg_price pos \<rparr>)
                 (current_position s),
             daily_equity := daily_equity s @
               [\<lparr> eq_date = dt, equity = total_equity, cash = cash_now,
                  position_value = pv \<rparr>] \<rparr>)"

text \<open>
  The stop stage of one bar: lines 131 to 135 of \<open>run_backtest\<close>.
\<close>

definition stop_stage :: "Params \<Rightarrow> Engine \<Rightarrow> int \<Rightarrow> real \<Rightarrow> Engine" where
  "stop_stage p s dt px =
     (case current_position s of
        None \<Rightarrow> s
      | Some _ \<Rightarrow>
          (case check_stop_conditions p s px of
             None \<Rightarrow> s
           | Some act \<Rightarrow> execute_trade p s dt px act))"

text \<open>
  The signal stage: lines 137 to 142. \<open>_generate_signal\<close> runs the technical analyzer on
  the bars seen so far and yields \<open>None\<close> when it raises; the analyzer is the parameter
  \<open>gen\<close>.
\<close>

definition signal_stage ::
  "Params \<Rightarrow> (bar list \<Rightarrow> Signal option) \<Rightarrow> Engine \<Rightarrow> bar list \<Rightarrow> int \<Rightarrow> real \<Rightarrow> Engine" where
  "signal_stage p gen s current_data dt px =
     (case gen current_data of
        None \<Rightarrow> s
      | Some sg \<Rightarrow> execute_trading_logic p s dt px sg)"

text \<open>One iteration of the loop of \<open>run_backtest\<close>, for the index \<open>i\<close>.\<close>

definition process_bar ::
  "Params \<Rightarrow> (bar list \<Rightarrow> Signal option) \<Rightarrow> bar list \<Rightarrow> Engine \<Rightarrow> nat \<Rightarrow> Engine" where
  "process_bar p gen df s i =
     (let current_date = date (df ! i);
          current_data = take (i + 1) df;
          current_price = close_price (df ! i)
      in if length current_data < 20 then update_daily_equity s current_date current_price
         else update_daily_equity
                (signal_stage p gen (stop_stage p s current_date current_price)
                   current_data current_date current_price)
                current_date current_price)"

text \<open>The loop over \<open>range(len(df))\<close>, from the reset state.\<close>

definition run_loop ::
  "Params \<Rightarrow> (bar list \<Rightarrow> Signal option) \<Rightarrow> bar list \<Rightarrow> Engine" where
  "run_loop p gen df = foldl (process_bar p gen df) (reset_state p) [0..<length df]"

section \<open>Post-run statistics (backtest.py)\<close>

text \<open>\<open>equity_series.expanding().max()\<close>: the running maximum.\<close>

fun expanding_max_from :: "real \<Rightarrow> real list \<Rightarrow> real list" where
  "expanding_max_from m [] = []"
| "expanding_max_from m (x # xs) = max m x # expanding_max_from (max m x) xs"

definition expanding_max :: "real list \<Rightarrow> real list" where
  "expanding_max xs = (case xs of [] \<Rightarrow> [] | x # rest \<Rightarrow> x # expanding_max_from x rest)"

text \<open>\<open>Series.min()\<close> skips \<open>NaN\<close>; of nothing but \<open>NaN\<close>, or of nothing, it is \<open>NaN\<close>.\<close>

fun fmin2 :: "fval \<Rightarrow> fval \<Rightarrow> fval" where
  "fmin2 NaN y = y"
| "fmin2 x NaN = x"
| "fmin2 NInf y = NInf"
| "fmin2 x NInf = NInf"
| "fmin2 PInf y = y"
| "fmin2 x PInf = x"
| "fmin2 (Fin a) (Fin b) = Fin (min a b)"

definition series_min :: "fval list \<Rightarrow> fval" where
  "series_min vs = foldr fmin2 vs NaN"

definition drawdown_series :: "real list \<Rightarrow> fval list" where
  "drawdown_series xs = map (\<lambda>(e, pk). fdiv (e - pk) pk) (zip xs (expanding_max xs))"

definition calculate_max_drawdown :: "real list \<Rightarrow> fval" where
  "calculate_max_drawdown equity_series = fabs (series_min (drawdown_series equity_series))"

record TradeStats =
  total_trades :: nat
  winning_trades :: nat
  losing_trades :: nat
  win_rate :: real
  avg_win :: real
  avg_loss :: real
  profit_factor :: fval

definition pair_pnl :: "Trade \<Rightarrow> Trade \<Rightarrow> real" where
  "pair_pnl buy_trade sell_trade =
     (price sell_trade - price buy_trade)
       * real_of_int (min (volume buy_trade) (volume sell_trade))
     - commission buy_trade - commission sell_trade"

text \<open>
  The pairing loop of \<open>_calculate_trade_statistics\<close>: for each buy, the sells with a
  later timestamp are filtered out of the list of sells and the first one is taken.
\<close>

definition trade_pairs :: "Trade list \<Rightarrow> real list" where
  "trade_pairs ts =
     (let buy_trades = filter (\<lambda>t. action t = ''buy'') ts;
          sell_trades = filter (\<lambda>t. action t = ''sell'') ts
      in concat (map (\<lambda>b.
           (case filter (\<lambda>sl. timestamp sl > timestamp b) sell_trades of
              [] \<Rightarrow> []
            | sl # _ \<Rightarrow> [pair_pnl b sl])) buy_trades))"

definition calculate_trade_statistics :: "Trade list \<Rightarrow> TradeStats" where
  "calculate_trade_statistics ts =
     (if ts = [] then
        \<lparr> total_trades = 0, winning_trades = 0, losing_trades = 0, win_rate = 0,
          avg_win = 0, avg_loss = 0, profit_factor = Fin 0 \<rparr>
      else
        (let pairs = trade_pairs ts in
         if pairs = [] then
           \<lparr> total_trades = length ts, winning_trades = 0, losing_trades = 0, win_rate = 0,
             avg_win = 0, avg_loss = 0, profit_factor = Fin 0 \<rparr>
         else
           (let wins = filter (\<lambda>x. x > 0) pairs;
                losses = filter (\<lambda>x. x < 0) pairs;
                total = length pairs;
                total_wins = (if wins \<noteq> [] then sum_list wins else 0);
                total_losses = (if losses \<noteq> [] then \<bar>sum_list losses\<bar> else 0)
            in \<lparr> total_trades = total,
                 winning_trades = length wins,
                 losing_trades = length losses,
                 win_rate = (if total > 0 then real (length wins) / real total else 0),
                 avg_win = (if wins \<noteq> [] then sum_list wins / real (length wins) else 0),
                 avg_loss = (if losses \<noteq> [] then \<bar>sum_list losses / real (length losses)\<bar> else 0),
                 profit_factor =
                   (if total_losses > 0 then Fin (total_wins / total_losses) else PInf) \<rparr>)))"

text \<open>
  The pairing as the specification words it: the first sell of the log, in log order,
  whose timestamp is strictly later than the buy's.
\<close>

definition first_later_sell :: "Trade list \<Rightarrow> Trade \<Rightarrow> Trade option" where
  "first_later_sell ts b = find (\<lambda>t. action t = ''sell'' \<and> timestamp t > timestamp b) ts"

definition spec_pairs :: "Trade list \<Rightarrow> real list" where
  "spec_pairs ts =
     concat (map (\<lambda>b. (case first_later_sell ts b of None \<Rightarrow> [] | Some sl \<Rightarrow> [pair_pnl b sl]))
                 (filter (\<lambda>t. action t = ''buy'') ts))"

section \<open>Well-formed engine states and concrete inputs\<close>

text \<open>An open position holds a positive whole number of lots of 100 shares.\<close>

definition position_in_lots :: "Engine \<Rightarrow> bool" where
  "position_in_lots s =
     (case current_position s of
        None \<Rightarrow> True
      | Some pos \<Rightarrow> 100 \<le> pos_volume pos \<and> pos_volume pos mod 100 = 0)"

text \<open>The invariant of the loop: cash is not negative and the position is in lots.\<close>

definition state_ok :: "Engine \<Rightarrow> bool" where
  "state_ok s = (0 \<le> current_capital s \<and> position_in_lots s)"

text \<open>A frame with the given closing prices, dated 0, 1, 2, ...\<close>

definition bars_of :: "real list \<Rightarrow> bar list" where
  "bars_of cs = map (\<lambda>(i, c). \<lparr> date = int i, close_price = c \<rparr>) (enumerate 0 cs)"

text \<open>
  Concrete configurations, states and price series on which the statements below are
  evaluated. The ratios stand for the missing \<open>config\<close> module.
\<close>

definition demo_config :: TradingConfig where
  "demo_config = \<lparr> position_ratio = 0.3, max_single_position = 0.3, trade_amount = 10000,
                    stop_loss_ratio = 0.05, take_profit_ratio = 0.08 \<rparr>"

definition demo_params :: Params where
  "demo_params = \<lparr> initial_capital = 100000, commission_rate = 0.0003,
                    trading_config = demo_config \<rparr>"

definition all_in_params :: Params where
  "all_in_params = \<lparr> initial_capital = 1000, commission_rate = 0.0003,
       trading_config = \<lparr> position_ratio = 1, max_single_position = 1, trade_amount = 10000,
                    stop_loss_ratio = 0.05, take_profit_ratio = 0.08 \<rparr> \<rparr>"

definition flat_state :: "real \<Rightarrow> Engine" where
  "flat_state c = \<lparr> current_capital = c, current_position = None, trades = [], daily_equity = [] \<rparr>"

definition lot_position :: "int \<Rightarrow> real \<Rightarrow> Position" where
  "lot_position v px = \<lparr> pos_volume = v, avg_price = px, market_value = real_of_int v * px,
      unrealized_pnl = 0, realized_pnl = 0 \<rparr>"

definition holding_state :: "real \<Rightarrow> int \<Rightarrow> real \<Rightarrow> Engine" where
  "holding_state c v px = \<lparr> current_capital = c, current_position = Some (lot_position v px),
      trades = [], daily_equity = [] \<rparr>"

definition always_buy :: "bar list \<Rightarrow> Signal option" where
  "always_buy d = Some \<lparr> signal_type = BUY, signal_strength = 1, sig_reason = ''ma'',
                          sig_price = close_price (last d) \<rparr>"



definition profit_run :: "bar list" where
  "profit_run = bars_of (replicate 20 10 @ [11])"

definition rising20 :: "bar list" where
  "rising20 = bars_of (replicate 19 100 @ [110])"

definition jump11 :: "bar list" where
  "jump11 = bars_of (replicate 10 1 @ [10])"

definition tight_config :: TradingConfig where
  "tight_config = \<lparr> position_ratio = 0.3, max_single_position = 0.3, trade_amount = 10000,
                    stop_loss_ratio = 0.05, take_profit_ratio = 0.08 \<rparr>"

text \<open>A drawdown entry that is a number between minus one and zero.\<close>

definition unit_loss :: "fval \<Rightarrow> bool" where
  "unit_loss v = (case v of Fin d \<Rightarrow> - 1 \<le> d \<and> d \<le> 0 | _ \<Rightarrow> False)"

text \<open>The equity curve of the specification's scenario B.\<close>

definition scenario_b :: "real list" where
  "scenario_b = [100000, 110000, 90000, 95000]"

text \<open>
  The equity list of a run: it starts at the value \<open>c\<close>, holds no negative equity, and
  the state is well formed.
\<close>

definition curve_ok :: "real \<Rightarrow> Engine \<Rightarrow> bool" where
  "curve_ok c s =
     (state_ok s \<and> daily_equity s \<noteq> [] \<and> equity (hd (daily_equity s)) = c
      \<and> (\<forall>e\<in>set (daily_equity s). 0 \<le> equity e))"

text \<open>Trade logs: an entry that is still open, and two round trips.\<close>

definition buy_only_log :: "Trade list" where
  "buy_only_log =
     [\<lparr> timestamp = 19, action = ''buy'', price = 10, volume = 3000, amount = 30000,
        commission = 9, reason = ''ma'' \<rparr>]"

definition mixed_log :: "Trade list" where
  "mixed_log =
     [\<lparr> timestamp = 1, action = ''buy'', price = 10, volume = 100, amount = 1000,
        commission = 1, reason = ''ma'' \<rparr>,
      \<lparr> timestamp = 2, action = ''sell'', price = 12, volume = 100, amount = 1200,
        commission = 1, reason = ''take_profit'' \<rparr>,
      \<lparr> timestamp = 3, action = ''buy'', price = 12, volume = 100, amount = 1200,
        commission = 1, reason = ''ma'' \<rparr>,
      \<lparr> timestamp = 4, action = ''sell'', price = 11, volume = 100, amount = 1100,
        commission = 1, reason = ''stop_loss'' \<rparr>]"

section \<open>Theorems\<close>

subsection \<open>Shared lemmas on the engine\<close>

lemma py_int_of_int: "py_int (real_of_int k) = k"
  by (simp add: py_int_def)

lemma sell_volume_full:
  assumes "strength \<ge> 0.8" "pos_volume pos mod 100 = 0"
  shows "sell_volume pos strength = pos_volume pos"
proof -
  from assms(2) obtain k where k: "pos_volume pos = 100 * k" by (auto simp: mod_eq_0_iff_dvd)
  have "real_of_int (pos_volume pos) * 1 / 100 = real_of_int k" by (simp add: k)
  then show ?thesis using assms(1) by (simp add: sell_volume_def sell_ratio_def py_int_of_int k)
qed

lemma sell_ratio_bounds: "0 < sell_ratio x \<and> sell_ratio x \<le> 1"
  by (simp add: sell_ratio_def)

lemma py_int_nonneg: "0 \<le> x \<Longrightarrow> py_int x = \<lfloor>x\<rfloor>"
  by (simp add: py_int_def)

lemma sell_volume_le:
  assumes "0 \<le> pos_volume pos"
  shows "sell_volume pos x \<le> pos_volume pos"
proof -
  let ?v = "real_of_int (pos_volume pos)"
  have r: "0 < sell_ratio x" "sell_ratio x \<le> 1" using sell_ratio_bounds by auto
  have nn: "0 \<le> ?v * sell_ratio x / 100" using assms r by simp
  have le: "?v * sell_ratio x \<le> ?v" using assms r by (simp add: mult_left_le)
  have "real_of_int (\<lfloor>?v * sell_ratio x / 100\<rfloor> * 100) \<le> ?v * sell_ratio x"
    using of_int_floor_le[of "?v * sell_ratio x / 100"] by simp
  then have "real_of_int (\<lfloor>?v * sell_ratio x / 100\<rfloor> * 100) \<le> ?v" using le by linarith
  then have "\<lfloor>?v * sell_ratio x / 100\<rfloor> * 100 \<le> pos_volume pos" by linarith
  then show ?thesis using nn by (simp add: sell_volume_def py_int_nonneg)
qed

lemma sell_volume_mod: "sell_volume pos x mod 100 = 0"
  by (simp add: sell_volume_def)

lemma buy_volume_mod: "buy_volume p s px x mod 100 = 0"
  by (simp add: buy_volume_def Let_def)

lemma execute_buy_lots: "position_in_lots s \<Longrightarrow> position_in_lots (execute_buy p s dt px x why)"
  by (simp add: execute_buy_def Let_def position_in_lots_def buy_volume_mod)

lemma execute_sell_lots:
  assumes "position_in_lots s"
  shows "position_in_lots (execute_sell p s dt px x why)"
proof (cases "current_position s")
  case None
  then show ?thesis using assms by (simp add: execute_sell_def)
next
  case (Some pos)
  then have v: "100 \<le> pos_volume pos" "pos_volume pos mod 100 = 0"
    using assms by (auto simp: position_in_lots_def)
  have le: "sell_volume pos x \<le> pos_volume pos" using sell_volume_le v by simp
  have m: "(pos_volume pos - sell_volume pos x) mod 100 = 0"
    using v(2) sell_volume_mod[of pos x] by (simp add: mod_diff_eq[symmetric] del: mod_diff_eq)
  have "sell_volume pos x \<noteq> pos_volume pos \<Longrightarrow> 100 \<le> pos_volume pos - sell_volume pos x"
    using le m by presburger
  then show ?thesis using Some assms
    by (auto simp: execute_sell_def Let_def position_in_lots_def m)
qed


lemma update_daily_equity_lots:
  "position_in_lots (update_daily_equity s dt px) = position_in_lots s"
  by (cases "current_position s") (simp_all add: update_daily_equity_def Let_def position_in_lots_def)

lemma update_daily_equity_capital:
  "current_capital (update_daily_equity s dt px) = current_capital s"
  by (simp add: update_daily_equity_def Let_def)

lemma execute_buy_capital:
  "0 \<le> current_capital s \<Longrightarrow> 0 \<le> current_capital (execute_buy p s dt px x why)"
  by (simp add: execute_buy_def Let_def)

lemma execute_sell_capital:
  assumes "0 \<le> current_capital s" "0 \<le> px" "commission_rate p \<le> 1"
  shows "0 \<le> current_capital (execute_sell p s dt px x why)"
proof (cases "current_position s")
  case None
  then show ?thesis using assms by (simp add: execute_sell_def)
next
  case (Some pos)
  show ?thesis
  proof (cases "sell_volume pos x < 100")
    case True
    then show ?thesis using Some assms by (simp add: execute_sell_def Let_def)
  next
    case False
    let ?a = "real_of_int (sell_volume pos x) * px"
    have a: "0 \<le> ?a" using False assms(2) by simp
    have "?a * commission_rate p \<le> ?a * 1" using a assms(3) by (rule mult_left_mono[rotated])
    then have "0 \<le> ?a - ?a * commission_rate p" by simp
    then show ?thesis using Some False assms(1) by (simp add: execute_sell_def Let_def)
  qed
qed

lemma stop_stage_ok:
  "state_ok s \<Longrightarrow> 0 \<le> px \<Longrightarrow> commission_rate p \<le> 1 \<Longrightarrow> state_ok (stop_stage p s dt px)"
  by (auto simp: stop_stage_def execute_trade_def state_ok_def execute_sell_capital execute_sell_lots
      split: option.splits)

lemma signal_stage_ok:
  "state_ok s \<Longrightarrow> 0 \<le> px \<Longrightarrow> commission_rate p \<le> 1 \<Longrightarrow> state_ok (signal_stage p gen s d dt px)"
  by (auto simp: signal_stage_def execute_trading_logic_def state_ok_def execute_sell_capital
      execute_sell_lots execute_buy_capital execute_buy_lots split: option.splits)

lemma process_bar_ok:
  assumes "state_ok s" "0 \<le> close_price (df ! i)" "commission_rate p \<le> 1"
  shows "state_ok (process_bar p gen df s i)"
proof -
  have u: "\<And>t dt px. state_ok t \<Longrightarrow> state_ok (update_daily_equity t dt px)"
    by (simp add: state_ok_def update_daily_equity_lots update_daily_equity_capital)
  show ?thesis using assms
    by (simp add: process_bar_def Let_def u stop_stage_ok signal_stage_ok)
qed

lemma foldl_process_bar_ok:
  assumes "commission_rate p \<le> 1" "\<forall>b\<in>set df. 0 \<le> close_price b"
  shows "state_ok s \<Longrightarrow> \<forall>i\<in>set js. i < length df \<Longrightarrow> state_ok (foldl (process_bar p gen df) s js)"
proof (induction js arbitrary: s)
  case Nil
  then show ?case by simp
next
  case (Cons j js)
  have "0 \<le> close_price (df ! j)" using assms(2) Cons.prems(2) by simp
  then have "state_ok (process_bar p gen df s j)"
    using process_bar_ok[OF Cons.prems(1) _ assms(1)] by simp
  then show ?case using Cons by simp
qed

lemma reset_state_ok: "0 \<le> initial_capital p \<Longrightarrow> state_ok (reset_state p)"
  by (simp add: state_ok_def reset_state_def position_in_lots_def)

lemma length_bars_of: "length (bars_of cs) = length cs"
  by (simp add: bars_of_def)

lemma nth_bars_of: "i < length cs \<Longrightarrow> bars_of cs ! i = \<lparr> date = int i, close_price = cs ! i \<rparr>"
  by (simp add: bars_of_def nth_enumerate_eq)

lemma profit_run_facts:
  "length profit_run = 21"
  "profit_run ! 19 = \<lparr> date = 19, close_price = 10 \<rparr>"
  "profit_run ! 20 = \<lparr> date = 20, close_price = 11 \<rparr>"
  by (simp_all add: profit_run_def length_bars_of nth_bars_of nth_append)

lemma warmup_keeps_core:
  "k \<le> 19 \<Longrightarrow> k \<le> length df \<Longrightarrow>
   current_capital (foldl (process_bar p gen df) (reset_state p) [0..<k]) = initial_capital p
   \<and> current_position (foldl (process_bar p gen df) (reset_state p) [0..<k]) = None
   \<and> trades (foldl (process_bar p gen df) (reset_state p) [0..<k]) = []"
proof (induction k)
  case 0
  then show ?case by (simp add: reset_state_def)
next
  case (Suc k)
  then show ?case
    by (simp add: process_bar_def Let_def update_daily_equity_def)
qed

lemma first_entry:
  assumes "current_capital s = 100000" "current_position s = None" "trades s = []"
  shows "current_capital (process_bar demo_params always_buy profit_run s 19) = 69991
    \<and> current_position (process_bar demo_params always_buy profit_run s 19)
        = Some \<lparr> pos_volume = 3000, avg_price = 10, market_value = 30000,
                 unrealized_pnl = 0, realized_pnl = 0 \<rparr>
    \<and> trades (process_bar demo_params always_buy profit_run s 19)
        = [\<lparr> timestamp = 19, action = ''buy'', price = 10, volume = 3000, amount = 30000,
             commission = 9, reason = ''ma'' \<rparr>]"
  using assms
  by (simp add: process_bar_def Let_def profit_run_facts update_daily_equity_def
      stop_stage_def signal_stage_def always_buy_def execute_trading_logic_def execute_buy_def
      buy_volume_def buy_total_cost_def demo_params_def demo_config_def py_int_def)


lemma exit_and_reentry:
  assumes "current_capital s = 69991"
    "current_position s = Some \<lparr> pos_volume = 3000, avg_price = 10, market_value = 30000,
                 unrealized_pnl = 0, realized_pnl = 0 \<rparr>"
    "trades s = [b]"
  shows "map timestamp (trades (process_bar demo_params always_buy profit_run s 20)) = [timestamp b, 20, 20]
    \<and> map action (trades (process_bar demo_params always_buy profit_run s 20)) = [action b, ''sell'', ''buy'']
    \<and> map reason (trades (process_bar demo_params always_buy profit_run s 20)) = [reason b, ''take_profit'', ''ma'']
    \<and> map volume (trades (process_bar demo_params always_buy profit_run s 20)) = [volume b, 3000, 2800]"
  using assms
  by (simp add: process_bar_def Let_def profit_run_facts update_daily_equity_def
      stop_stage_def signal_stage_def always_buy_def execute_trading_logic_def execute_buy_def
      buy_volume_def buy_total_cost_def demo_params_def demo_config_def py_int_def
      check_stop_conditions_def execute_trade_def execute_sell_def sell_volume_def sell_ratio_def)

lemma bars_of_nonneg: "\<forall>c\<in>set cs. 0 \<le> c \<Longrightarrow> \<forall>b\<in>set (bars_of cs). 0 \<le> close_price b"
  by (auto simp: bars_of_def in_set_enumerate_eq)

subsection \<open>Shared lemmas on the momentum analyzer\<close>

lemma close_prices_bars_of: "map close_price (bars_of cs) = cs"
  by (rule nth_equalityI) (simp_all add: length_bars_of nth_bars_of)

lemma momentum_last:
  assumes "data \<noteq> []"
  shows "map_option last (momentum data n)
     = Some (if length data - 1 < n then NaN
             else Fin (data ! (length data - 1) - data ! (length data - 1 - n)))"
  using assms by (simp add: momentum_def last_map)

lemma price_change_last:
  assumes "data \<noteq> []"
  shows "map_option last (price_change data n)
     = Some (if length data - 1 < n then NaN
             else fsub (fdiv (data ! (length data - 1)) (data ! (length data - 1 - n))) 1)"
  using assms by (simp add: price_change_def last_map)

lemma validate_data_method_call: "validate_data (Instance # args) = None"
  by (simp add: validate_data_def)

lemma analyze_momentum_is_body: "analyze_momentum df = analyze_momentum_body df"
  by (simp add: analyze_momentum_def validate_data_method_call)

lemma analyze_momentum_body_eq:
  assumes "df \<noteq> []"
  shows "analyze_momentum_body df =
     (let n = length df; cs = map close_price df;
          momentum_value = (if n - 1 < 10 then NaN else Fin (cs ! (n - 1) - cs ! (n - 1 - 10)));
          price_change_value = (if n - 1 < 1 then NaN
                                else fsub (fdiv (cs ! (n - 1)) (cs ! (n - 1 - 1))) 1)
      in if fgt momentum_value 5 \<and> fgt price_change_value 2
             then (STRONG_BUY, 0.8, Momentum_strong_up)
           else if fgt momentum_value 2 \<and> fgt price_change_value 1
             then (BUY, 0.6, Momentum_up)
           else if flt momentum_value (-5) \<and> flt price_change_value (-2)
             then (STRONG_SELL, 0.8, Momentum_strong_down)
           else if flt momentum_value (-2) \<and> flt price_change_value (-1)
             then (SELL, 0.6, Momentum_down)
           else (HOLD, 0, Momentum_unclear))"
proof -
  have ne: "map close_price df \<noteq> []" using assms by simp
  obtain ms where ms: "momentum (map close_price df) 10 = Some ms"
    using ne by (simp add: momentum_def)
  obtain pcs where pcs: "price_change (map close_price df) 1 = Some pcs"
    using ne by (simp add: price_change_def)
  have m: "last ms = (if length df - 1 < 10 then NaN
       else Fin (map close_price df ! (length df - 1) - map close_price df ! (length df - 1 - 10)))"
    using momentum_last[OF ne, of 10] ms by simp
  have c: "last pcs = (if length df - 1 < 1 then NaN
       else fsub (fdiv (map close_price df ! (length df - 1)) (map close_price df ! (length df - 1 - 1))) 1)"
    using price_change_last[OF ne, of 1] pcs by simp
  show ?thesis
    unfolding analyze_momentum_body_def ms pcs
    by (simp only: Let_def m c prod.case option.case)
qed

subsection \<open>Shared lemmas on the drawdown and the equity curve\<close>

lemma fdiv_unit_loss:
  assumes "0 \<le> e" "e \<le> pk" "0 < pk"
  shows "unit_loss (fdiv (e - pk) pk)"
proof -
  have "(e - pk) / pk \<le> 0" using assms by (simp add: divide_nonpos_pos)
  moreover have "- 1 \<le> (e - pk) / pk" using assms by (simp add: pos_le_divide_eq)
  ultimately show ?thesis using assms(3) by (simp add: fdiv_def unit_loss_def)
qed

lemma expanding_max_from_unit_loss:
  "0 < m \<Longrightarrow> \<forall>x\<in>set xs. 0 \<le> x \<Longrightarrow>
   \<forall>v\<in>set (map (\<lambda>(e, pk). fdiv (e - pk) pk) (zip xs (expanding_max_from m xs))). unit_loss v"
proof (induction xs arbitrary: m)
  case Nil
  then show ?case by simp
next
  case (Cons x xs)
  have pos: "0 < max m x" using Cons.prems(1) by simp
  have hd: "unit_loss (fdiv (x - max m x) (max m x))"
    using Cons.prems(2) pos by (intro fdiv_unit_loss) simp_all
  have tl: "\<forall>v\<in>set (map (\<lambda>(e, pk). fdiv (e - pk) pk) (zip xs (expanding_max_from (max m x) xs))). unit_loss v"
    using Cons.IH[OF pos] Cons.prems(2) by simp
  show ?case using hd tl by simp
qed

lemma drawdown_series_unit_loss:
  assumes "xs \<noteq> []" "0 < hd xs" "\<forall>x\<in>set xs. 0 \<le> x"
  shows "drawdown_series xs \<noteq> [] \<and> (\<forall>v\<in>set (drawdown_series xs). unit_loss v)"
proof -
  obtain x rest where xs: "xs = x # rest" using assms(1) by (cases xs) auto
  have pos: "0 < x" using assms(2) xs by simp
  have hd: "unit_loss (fdiv (x - x) x)" using pos by (intro fdiv_unit_loss) simp_all
  have tl: "\<forall>v\<in>set (map (\<lambda>(e, pk). fdiv (e - pk) pk) (zip rest (expanding_max_from x rest))). unit_loss v"
    using expanding_max_from_unit_loss[OF pos, of rest] assms(3) xs by simp
  show ?thesis using hd tl by (simp add: drawdown_series_def expanding_max_def xs)
qed

lemma series_min_unit_loss:
  "vs \<noteq> [] \<Longrightarrow> \<forall>v\<in>set vs. unit_loss v \<Longrightarrow> unit_loss (series_min vs)"
proof (induction vs)
  case Nil
  then show ?case by simp
next
  case (Cons v vs)
  obtain a where a: "v = Fin a" "- 1 \<le> a" "a \<le> 0"
    using Cons.prems(2) by (cases v) (auto simp: unit_loss_def)
  show ?case
  proof (cases "vs = []")
    case True
    then show ?thesis using a by (simp add: series_min_def unit_loss_def)
  next
    case False
    then have "unit_loss (series_min vs)" using Cons by simp
    then obtain b where b: "series_min vs = Fin b" "- 1 \<le> b" "b \<le> 0"
      by (cases "series_min vs") (auto simp: unit_loss_def)
    have "series_min (v # vs) = fmin2 v (series_min vs)" by (simp add: series_min_def)
    then show ?thesis using a b by (simp add: unit_loss_def)
  qed
qed

lemma max_drawdown_of_unit_loss:
  assumes "xs \<noteq> []" "0 < hd xs" "\<forall>x\<in>set xs. 0 \<le> x"
  shows "\<exists>d. calculate_max_drawdown xs = Fin d \<and> 0 \<le> d \<and> d \<le> 1"
proof -
  have "unit_loss (series_min (drawdown_series xs))"
    using drawdown_series_unit_loss[OF assms] series_min_unit_loss by blast
  then obtain b where b: "series_min (drawdown_series xs) = Fin b" "- 1 \<le> b" "b \<le> 0"
    by (cases "series_min (drawdown_series xs)") (auto simp: unit_loss_def)
  then show ?thesis by (simp add: calculate_max_drawdown_def)
qed

lemma scenario_b_drawdown: "calculate_max_drawdown scenario_b = Fin (2 / 11)"
  by (simp add: scenario_b_def calculate_max_drawdown_def drawdown_series_def expanding_max_def
      series_min_def fdiv_def)

lemma execute_buy_equity: "daily_equity (execute_buy p s dt px x why) = daily_equity s"
  by (simp add: execute_buy_def Let_def)

lemma execute_sell_equity: "daily_equity (execute_sell p s dt px x why) = daily_equity s"
  by (simp add: execute_sell_def Let_def split: option.splits)

lemma stop_stage_equity: "daily_equity (stop_stage p s dt px) = daily_equity s"
  by (simp add: stop_stage_def execute_trade_def execute_sell_equity split: option.splits)

lemma signal_stage_equity: "daily_equity (signal_stage p gen s d dt px) = daily_equity s"
  by (simp add: signal_stage_def execute_trading_logic_def execute_sell_equity execute_buy_equity
      split: option.splits)

lemma update_daily_equity_appends:
  "daily_equity (update_daily_equity s dt px)
     = daily_equity s @
       [\<lparr> eq_date = dt,
          equity = current_capital s
            + (case current_position s of None \<Rightarrow> 0 | Some pos \<Rightarrow> real_of_int (pos_volume pos) * px),
          cash = current_capital s,
          position_value =
            (case current_position s of None \<Rightarrow> 0 | Some pos \<Rightarrow> real_of_int (pos_volume pos) * px) \<rparr>]"
  by (simp add: update_daily_equity_def Let_def)

lemma update_daily_equity_nonneg:
  assumes "state_ok s" "0 \<le> px"
  shows "0 \<le> current_capital s
            + (case current_position s of None \<Rightarrow> 0 | Some pos \<Rightarrow> real_of_int (pos_volume pos) * px)"
proof (cases "current_position s")
  case None
  then show ?thesis using assms by (simp add: state_ok_def)
next
  case (Some pos)
  then have "0 \<le> pos_volume pos" using assms(1) by (simp add: state_ok_def position_in_lots_def)
  then have "0 \<le> real_of_int (pos_volume pos) * px" using assms(2) by simp
  then show ?thesis using Some assms(1) by (simp add: state_ok_def)
qed

lemma update_daily_equity_curve:
  assumes "state_ok t" "0 \<le> px" "daily_equity t \<noteq> []" "equity (hd (daily_equity t)) = c"
    "\<forall>e\<in>set (daily_equity t). 0 \<le> equity e"
  shows "curve_ok c (update_daily_equity t dt px)"
proof -
  have ok: "state_ok (update_daily_equity t dt px)"
    using assms(1) by (simp add: state_ok_def update_daily_equity_lots update_daily_equity_capital)
  show ?thesis
    using ok assms(3,4,5) update_daily_equity_nonneg[OF assms(1,2)]
    by (simp add: curve_ok_def update_daily_equity_appends)
qed

lemma process_bar_curve:
  assumes "curve_ok c s" "0 \<le> close_price (df ! i)" "commission_rate p \<le> 1"
  shows "curve_ok c (process_bar p gen df s i)"
proof -
  let ?dt = "date (df ! i)" and ?px = "close_price (df ! i)"
  let ?t = "signal_stage p gen (stop_stage p s ?dt ?px) (take (i + 1) df) ?dt ?px"
  have s: "state_ok s" "daily_equity s \<noteq> []" "equity (hd (daily_equity s)) = c"
    "\<forall>e\<in>set (daily_equity s). 0 \<le> equity e"
    using assms(1) by (simp_all add: curve_ok_def)
  have t_ok: "state_ok ?t"
    using s(1) assms(2,3) by (simp add: stop_stage_ok signal_stage_ok)
  have t_eq: "daily_equity ?t = daily_equity s"
    by (simp add: signal_stage_equity stop_stage_equity)
  have a: "curve_ok c (update_daily_equity s ?dt ?px)"
    using update_daily_equity_curve[OF s(1) assms(2) s(2,3,4)] .
  have b: "curve_ok c (update_daily_equity ?t ?dt ?px)"
    using update_daily_equity_curve[OF t_ok assms(2), of c ?dt] s(2,3,4) t_eq by simp
  show ?thesis using a b by (simp add: process_bar_def Let_def)
qed

lemma foldl_process_bar_curve:
  assumes "commission_rate p \<le> 1" "\<forall>b\<in>set df. 0 \<le> close_price b"
  shows "curve_ok c s \<Longrightarrow> \<forall>i\<in>set js. i < length df \<Longrightarrow> curve_ok c (foldl (process_bar p gen df) s js)"
proof (induction js arbitrary: s)
  case Nil
  then show ?case by simp
next
  case (Cons j js)
  have "0 \<le> close_price (df ! j)" using assms(2) Cons.prems(2) by simp
  then have "curve_ok c (process_bar p gen df s j)"
    using process_bar_curve[OF Cons.prems(1) _ assms(1)] by simp
  then show ?case using Cons by simp
qed

lemma first_bar_curve:
  assumes "0 \<le> initial_capital p" "df \<noteq> []" "0 \<le> close_price (df ! 0)"
  shows "curve_ok (initial_capital p) (process_bar p gen df (reset_state p) 0)"
proof -
  have l: "length (take (0 + 1) df) < 20" by simp
  have ok: "state_ok (update_daily_equity (reset_state p) (date (df ! 0)) (close_price (df ! 0)))"
    using reset_state_ok[OF assms(1)]
    by (simp add: state_ok_def update_daily_equity_lots update_daily_equity_capital)
  have pb: "process_bar p gen df (reset_state p) 0
      = update_daily_equity (reset_state p) (date (df ! 0)) (close_price (df ! 0))"
    using l by (simp add: process_bar_def Let_def del: take_Suc_conv_app_nth)
  show ?thesis unfolding pb using ok assms(1)
    by (simp add: curve_ok_def update_daily_equity_appends reset_state_def)
qed

lemma run_loop_curve:
  assumes "0 \<le> initial_capital p" "commission_rate p \<le> 1" "\<forall>b\<in>set df. 0 \<le> close_price b"
    "df \<noteq> []"
  shows "curve_ok (initial_capital p) (run_loop p gen df)"
proof -
  have u: "[0..<length df] = 0 # [1..<length df]"
    using assms(4) by (simp add: upt_conv_Cons)
  have f: "0 \<le> close_price (df ! 0)" using assms(3,4) by simp
  have "curve_ok (initial_capital p)
          (foldl (process_bar p gen df) (process_bar p gen df (reset_state p) 0) [1..<length df])"
    using foldl_process_bar_curve[OF assms(2,3) first_bar_curve[OF assms(1,4) f], of "[1..<length df]" gen]
    by simp
  then show ?thesis by (simp add: run_loop_def u)
qed

subsection \<open>Shared lemmas on the trade statistics\<close>

lemma first_of_filter:
  "(case filter P xs of [] \<Rightarrow> a | y # _ \<Rightarrow> f y) = (case find P xs of None \<Rightarrow> a | Some y \<Rightarrow> f y)"
  by (induction xs) auto

lemma find_filter: "find P (filter Q xs) = find (\<lambda>x. Q x \<and> P x) xs"
  by (induction xs) auto

lemma trade_pairs_spec: "trade_pairs ts = spec_pairs ts"
  by (simp add: trade_pairs_def spec_pairs_def first_later_sell_def Let_def first_of_filter
      find_filter)

lemma sum_list_negative:
  "xs \<noteq> [] \<Longrightarrow> \<forall>x\<in>set xs. x < (0::real) \<Longrightarrow> sum_list xs < 0"
proof (induction xs)
  case Nil
  then show ?case by simp
next
  case (Cons x xs)
  show ?case
  proof (cases "xs = []")
    case True
    then show ?thesis using Cons.prems by simp
  next
    case False
    then have "sum_list xs < 0" using Cons by simp
    then show ?thesis using Cons.prems(2) by simp
  qed
qed

lemma losses_sum_negative:
  "filter (\<lambda>x. x < (0::real)) ps \<noteq> [] \<Longrightarrow> sum_list (filter (\<lambda>x. x < 0) ps) < 0"
  by (rule sum_list_negative) auto

lemma first_later_sell_props:
  assumes "first_later_sell ts b = Some sl"
  shows "sl \<in> set ts \<and> action sl = ''sell'' \<and> timestamp b < timestamp sl
     \<and> (sorted (map timestamp ts) \<longrightarrow>
          (\<forall>t\<in>set ts. action t = ''sell'' \<and> timestamp b < timestamp t
              \<longrightarrow> timestamp sl \<le> timestamp t))"
proof -
  let ?P = "\<lambda>t. action t = ''sell'' \<and> timestamp t > timestamp b"
  from assms obtain i where i: "i < length ts" "?P (ts ! i)" "sl = ts ! i" "\<forall>j<i. \<not> ?P (ts ! j)"
    unfolding first_later_sell_def find_Some_iff by blast
  have mem: "sl \<in> set ts" using i(1,3) by simp
  have chron: "timestamp sl \<le> timestamp t"
    if srt: "sorted (map timestamp ts)" and t: "t \<in> set ts" "action t = ''sell''"
      "timestamp b < timestamp t" for t
  proof -
    from t(1) obtain j where j: "j < length ts" "t = ts ! j" by (auto simp: in_set_conv_nth)
    have "\<not> j < i" using i(4) j(2) t(2,3) by auto
    then have "i \<le> j" by simp
    then have "map timestamp ts ! i \<le> map timestamp ts ! j"
      using sorted_nth_mono[OF srt, of i j] j(1) by simp
    then show ?thesis using i(1,3) j by simp
  qed
  show ?thesis using mem i(2,3) chron by blast
qed

lemma mixed_log_spec_pairs: "spec_pairs mixed_log = [198, - 102]"
  by (simp add: spec_pairs_def first_later_sell_def mixed_log_def pair_pnl_def)

subsection \<open>Shared lemmas on the combiner\<close>

lemma combine_equal_signals:
  "t \<noteq> HOLD \<Longrightarrow> combine_strategy_signals t t x =
     (if x \<ge> 0.7 then (if t = BUY then STRONG_BUY else STRONG_SELL) else t)"
  by (simp add: combine_strategy_signals_def)

lemma combine_different_signals:
  "t \<noteq> m \<or> t = HOLD \<Longrightarrow> combine_strategy_signals t m x = (if x \<ge> 0.5 then t else HOLD)"
  by (auto simp: combine_strategy_signals_def)

subsection \<open>C3: the strategy combiner\<close>

text \<open>
  C3. The claim: when both signals agree on a non-Hold direction and the combined
  strength is at least 0.7, the combiner returns the Strong variant of the agreed
  direction. At two \<open>STRONG_BUY\<close> inputs with strength 0.8 the source returns
  \<open>STRONG_SELL\<close>: the inner test only recognises \<open>BUY\<close>, every other agreeing
  signal falls into the else branch.
\<close>

theorem combine_strategy_signals_strong_buy_pair:
  "combine_strategy_signals STRONG_BUY STRONG_BUY 0.8 = STRONG_SELL
   \<and> strong_variant (direction STRONG_BUY) = STRONG_BUY"
  by (simp add: combine_strategy_signals_def)

subsection \<open>C10: a rejected order changes nothing\<close>

text \<open>
  C10. A buy whose lot-rounded volume is below one lot, or whose total cost (amount plus
  commission) exceeds the cash, returns the engine state it was given; so does a sell
  whose lot-rounded volume is below one lot. Cash, position and trade log are fields of
  that state.
\<close>

theorem rejected_order_leaves_state_unchanged:
  "((buy_volume p s px x < 100 \<or> buy_total_cost p s px x > current_capital s)
      \<longrightarrow> execute_buy p s dt px x why = s)
   \<and> (\<forall>pos. current_position s = Some pos \<and> sell_volume pos x < 100
      \<longrightarrow> execute_sell p s dt px x why = s)"
  by (simp add: execute_buy_def execute_sell_def Let_def)

theorem rejected_order_leaves_state_unchanged_witness:
  "buy_volume demo_params (flat_state 500) 10 1 < 100
   \<and> execute_buy demo_params (flat_state 500) 7 10 1 ''ma'' = flat_state 500
   \<and> buy_total_cost all_in_params (flat_state 1000) 10 1 > current_capital (flat_state 1000)
   \<and> execute_buy all_in_params (flat_state 1000) 7 10 1 ''ma'' = flat_state 1000
   \<and> sell_volume (lot_position 100 10) 0.5 < 100
   \<and> execute_sell demo_params (holding_state 500 100 10) 7 10 0.5 ''rsi'' = holding_state 500 100 10"
proof -
  have h1: "buy_volume demo_params (flat_state 500) 10 1 < 100"
    by (simp add: buy_volume_def demo_params_def demo_config_def flat_state_def py_int_def)
  have h2: "buy_total_cost all_in_params (flat_state 1000) 10 1 > current_capital (flat_state 1000)"
    by (simp add: buy_total_cost_def buy_volume_def all_in_params_def flat_state_def py_int_def)
  have h3: "sell_volume (lot_position 100 10) 0.5 < 100"
    by (simp add: sell_volume_def sell_ratio_def lot_position_def py_int_def)
  have h4: "current_position (holding_state 500 100 10) = Some (lot_position 100 10)"
    by (simp add: holding_state_def)
  note t1 = rejected_order_leaves_state_unchanged[of demo_params "flat_state 500" 10 1 7 "''ma''"]
  note t2 = rejected_order_leaves_state_unchanged[of all_in_params "flat_state 1000" 10 1 7 "''ma''"]
  note t3 = rejected_order_leaves_state_unchanged[of demo_params "holding_state 500 100 10" 10 "0.5" 7 "''rsi''"]
  have c1: "execute_buy demo_params (flat_state 500) 7 10 1 ''ma'' = flat_state 500"
    using t1 h1 by blast
  have c2: "execute_buy all_in_params (flat_state 1000) 7 10 1 ''ma'' = flat_state 1000"
    using t2 h2 by blast
  have c3: "execute_sell demo_params (holding_state 500 100 10) 7 10 0.5 ''rsi'' = holding_state 500 100 10"
    using t3 h3 h4 by blast
  show ?thesis using h1 h2 h3 c1 c2 c3 by blast
qed

subsection \<open>C4: the fraction sold on a sell signal\<close>

text \<open>
  C4. The claim: below strength 0.5 one third of the position is sold, rounded down to
  whole lots. With three lots held and a sell signal of strength 0.3 the source sells
  nothing: its ratio is the constant 0.33, and 300 * 0.33 / 100 truncates to zero lots,
  where one third of 300 shares is exactly one lot.
\<close>

theorem weak_sell_of_three_lots_sells_nothing:
  "sell_ratio 0.3 = 0.33
   \<and> sell_volume (lot_position 300 10) 0.3 = 0
   \<and> execute_sell demo_params (holding_state 500 300 10) 7 10 0.3 ''rsi'' = holding_state 500 300 10
   \<and> py_int (real_of_int 300 * (1 / 3) / 100) * 100 = 100"
  by (simp add: execute_sell_def sell_volume_def sell_ratio_def lot_position_def holding_state_def py_int_def)

subsection \<open>C2: cash never goes negative\<close>

text \<open>
  C2. With a non-negative initial capital, closing prices that are not negative and a
  commission rate of at most one, the cash balance is non-negative after every bar of
  the loop and at its end. A buy whose total cost (amount plus commission) exceeds the
  cash returns the state unchanged: there is no branch that buys a smaller volume.
\<close>

theorem cash_never_negative:
  assumes "0 \<le> initial_capital p" "commission_rate p \<le> 1"
    "\<forall>b\<in>set df. 0 \<le> close_price b" "k \<le> length df"
  shows "0 \<le> current_capital (foldl (process_bar p gen df) (reset_state p) [0..<k])
     \<and> 0 \<le> current_capital (run_loop p gen df)
     \<and> (buy_total_cost p s px x > current_capital s \<longrightarrow> execute_buy p s dt px x why = s)"
proof -
  have "state_ok (foldl (process_bar p gen df) (reset_state p) [0..<k])"
    using foldl_process_bar_ok[OF assms(2,3) reset_state_ok[OF assms(1)], of "[0..<k]" gen] assms(4)
    by simp
  moreover have "state_ok (run_loop p gen df)"
    unfolding run_loop_def
    using foldl_process_bar_ok[OF assms(2,3) reset_state_ok[OF assms(1)], of "[0..<length df]" gen]
    by simp
  moreover have "buy_total_cost p s px x > current_capital s \<longrightarrow> execute_buy p s dt px x why = s"
    by (simp add: execute_buy_def Let_def)
  ultimately show ?thesis by (simp add: state_ok_def)
qed

theorem cash_never_negative_witness:
  "0 \<le> current_capital (foldl (process_bar demo_params always_buy profit_run) (reset_state demo_params) [0..<20])
   \<and> 0 \<le> current_capital (run_loop demo_params always_buy profit_run)
   \<and> buy_total_cost all_in_params (flat_state 1000) 10 1 > current_capital (flat_state 1000)
   \<and> execute_buy all_in_params (flat_state 1000) 7 10 1 ''ma'' = flat_state 1000"
proof -
  have h1: "0 \<le> initial_capital demo_params" by (simp add: demo_params_def)
  have h2: "commission_rate demo_params \<le> 1" by (simp add: demo_params_def)
  have h3: "\<forall>b\<in>set profit_run. 0 \<le> close_price b"
    unfolding profit_run_def by (rule bars_of_nonneg) auto
  have h4: "20 \<le> length profit_run" by (simp add: profit_run_facts)
  have g1: "0 \<le> initial_capital all_in_params" by (simp add: all_in_params_def)
  have g2: "commission_rate all_in_params \<le> 1" by (simp add: all_in_params_def)
  have g4: "0 \<le> length profit_run" by simp
  have c: "buy_total_cost all_in_params (flat_state 1000) 10 1 > current_capital (flat_state 1000)"
    by (simp add: buy_total_cost_def buy_volume_def all_in_params_def flat_state_def py_int_def)
  note a = cash_never_negative[OF h1 h2 h3 h4, where gen = always_buy]
  note b = cash_never_negative[OF g1 g2 h3 g4, where s = "flat_state 1000" and px = 10 and x = 1
             and dt = 7 and why = "''ma''"]
  from a have a1: "0 \<le> current_capital (foldl (process_bar demo_params always_buy profit_run) (reset_state demo_params) [0..<20])"
    and a2: "0 \<le> current_capital (run_loop demo_params always_buy profit_run)" by blast+
  from b c have b1: "execute_buy all_in_params (flat_state 1000) 7 10 1 ''ma'' = flat_state 1000"
    by blast
  show ?thesis using a1 a2 c b1 by blast
qed

subsection \<open>C1: stop-loss and take-profit inside the loop\<close>

text \<open>
  C1, as claimed: a triggered exit short-circuits signal evaluation for that bar, so no
  signal-driven trade occurs on it. The run below holds 20 bars at 10 and one at 11,
  with an analyzer that answers Buy: on the last bar the take-profit exit sells the
  3000 shares and the signal stage buys 2800 shares on the same bar.
\<close>

theorem take_profit_bar_also_buys:
  "map timestamp (trades (run_loop demo_params always_buy profit_run)) = [19, 20, 20]
   \<and> map action (trades (run_loop demo_params always_buy profit_run)) = [''buy'', ''sell'', ''buy'']
   \<and> map reason (trades (run_loop demo_params always_buy profit_run)) = [''ma'', ''take_profit'', ''ma'']
   \<and> map volume (trades (run_loop demo_params always_buy profit_run)) = [3000, 3000, 2800]"
proof -
  define t19 where "t19 = foldl (process_bar demo_params always_buy profit_run) (reset_state demo_params) [0..<19]"
  define t20 where "t20 = process_bar demo_params always_buy profit_run t19 19"
  have w: "current_capital t19 = 100000 \<and> current_position t19 = None \<and> trades t19 = []"
    unfolding t19_def
    using warmup_keeps_core[of 19 profit_run demo_params always_buy]
    by (simp add: profit_run_facts demo_params_def)
  have e: "current_capital t20 = 69991
    \<and> current_position t20 = Some \<lparr> pos_volume = 3000, avg_price = 10, market_value = 30000,
                 unrealized_pnl = 0, realized_pnl = 0 \<rparr>
    \<and> trades t20 = [\<lparr> timestamp = 19, action = ''buy'', price = 10, volume = 3000, amount = 30000,
             commission = 9, reason = ''ma'' \<rparr>]"
    unfolding t20_def using first_entry[of t19] w by simp
  have u: "[0..<21] = [0..<19] @ [19, 20]"
    by code_simp
  have r: "run_loop demo_params always_buy profit_run
      = process_bar demo_params always_buy profit_run t20 20"
    by (simp add: run_loop_def profit_run_facts u t19_def t20_def del: upt_Suc)
  show ?thesis unfolding r using exit_and_reentry[of t20] e by simp
qed

text \<open>
  C1, amended. On a bar with an open position (in lots) where the stop policy triggers,
  the stop stage runs first, sells the whole position at the bar's closing price and logs
  the sale with reason \<open>stop_loss\<close> or \<open>take_profit\<close>. The signal stage then
  still runs on the now flat state: a Buy or StrongBuy signal goes to \<open>execute_buy\<close>
  on the same bar, any other signal changes nothing.
\<close>

theorem stop_exit_then_signal_stage:
  assumes "i < length df" "19 \<le> i"
    and "current_position s = Some pos" "position_in_lots s"
    and "check_stop_conditions p s (close_price (df ! i)) = Some act"
  shows "(act = ''stop_loss'' \<or> act = ''take_profit'')
   \<and> stop_stage p s (date (df ! i)) (close_price (df ! i))
       = s\<lparr> current_capital := current_capital s
                + (real_of_int (pos_volume pos) * close_price (df ! i)
                   - real_of_int (pos_volume pos) * close_price (df ! i) * commission_rate p),
             current_position := None,
             trades := trades s @
               [\<lparr> timestamp = date (df ! i), action = ''sell'', price = close_price (df ! i),
                  volume = pos_volume pos,
                  amount = real_of_int (pos_volume pos) * close_price (df ! i),
                  commission = real_of_int (pos_volume pos) * close_price (df ! i) * commission_rate p,
                  reason = act \<rparr>] \<rparr>
   \<and> process_bar p gen df s i
       = update_daily_equity
           (case gen (take (i + 1) df) of
              None \<Rightarrow> stop_stage p s (date (df ! i)) (close_price (df ! i))
            | Some sg \<Rightarrow>
                if signal_type sg = BUY \<or> signal_type sg = STRONG_BUY
                then execute_buy p (stop_stage p s (date (df ! i)) (close_price (df ! i)))
                       (date (df ! i)) (close_price (df ! i)) (signal_strength sg) (sig_reason sg)
                else stop_stage p s (date (df ! i)) (close_price (df ! i)))
           (date (df ! i)) (close_price (df ! i))"
proof -
  let ?dt = "date (df ! i)" and ?px = "close_price (df ! i)"
  have act: "act = ''stop_loss'' \<or> act = ''take_profit''"
    using assms(3,5) by (auto simp: check_stop_conditions_def Let_def split: if_splits)
  have lots: "100 \<le> pos_volume pos" "pos_volume pos mod 100 = 0"
    using assms(3,4) by (auto simp: position_in_lots_def)
  have sv: "sell_volume pos 1.0 = pos_volume pos"
    using sell_volume_full[of "1.0" pos] lots(2) by simp
  have st: "stop_stage p s ?dt ?px = execute_sell p s ?dt ?px 1.0 act"
    using assms(3,5) act by (auto simp: stop_stage_def execute_trade_def)
  have ex: "execute_sell p s ?dt ?px 1.0 act
       = s\<lparr> current_capital := current_capital s
                + (real_of_int (pos_volume pos) * ?px
                   - real_of_int (pos_volume pos) * ?px * commission_rate p),
             current_position := None,
             trades := trades s @
               [\<lparr> timestamp = ?dt, action = ''sell'', price = ?px,
                  volume = pos_volume pos,
                  amount = real_of_int (pos_volume pos) * ?px,
                  commission = real_of_int (pos_volume pos) * ?px * commission_rate p,
                  reason = act \<rparr>] \<rparr>"
    using assms(3) lots(1) sv by (simp add: execute_sell_def Let_def)
  have flat: "current_position (stop_stage p s ?dt ?px) = None"
    unfolding st ex by simp
  have len: "\<not> length (take (i + 1) df) < 20" using assms(1,2) by simp
  have pb: "process_bar p gen df s i
       = update_daily_equity (signal_stage p gen (stop_stage p s ?dt ?px) (take (i + 1) df) ?dt ?px) ?dt ?px"
    using len by (simp add: process_bar_def Let_def)
  have sg: "signal_stage p gen (stop_stage p s ?dt ?px) (take (i + 1) df) ?dt ?px
       = (case gen (take (i + 1) df) of
              None \<Rightarrow> stop_stage p s ?dt ?px
            | Some sg \<Rightarrow>
                if signal_type sg = BUY \<or> signal_type sg = STRONG_BUY
                then execute_buy p (stop_stage p s ?dt ?px) ?dt ?px (signal_strength sg) (sig_reason sg)
                else stop_stage p s ?dt ?px)"
    using flat by (simp add: signal_stage_def execute_trading_logic_def split: option.splits)
  show ?thesis using act st ex pb sg by simp
qed


theorem stop_exit_then_signal_stage_witness:
  "(20::nat) < length profit_run
   \<and> position_in_lots (holding_state 69991 3000 10)
   \<and> check_stop_conditions demo_params (holding_state 69991 3000 10) 11 = Some ''take_profit''
   \<and> current_position (stop_stage demo_params (holding_state 69991 3000 10) 20 11) = None
   \<and> map reason (trades (stop_stage demo_params (holding_state 69991 3000 10) 20 11)) = [''take_profit'']
   \<and> map volume (trades (stop_stage demo_params (holding_state 69991 3000 10) 20 11)) = [3000]
   \<and> process_bar demo_params always_buy profit_run (holding_state 69991 3000 10) 20
       = update_daily_equity
           (execute_buy demo_params (stop_stage demo_params (holding_state 69991 3000 10) 20 11)
              20 11 1 ''ma'') 20 11"
proof -
  have h1: "(20::nat) < length profit_run" by (simp add: profit_run_facts)
  have h2: "(19::nat) \<le> 20" by simp
  have h3: "current_position (holding_state 69991 3000 10) = Some (lot_position 3000 10)"
    by (simp add: holding_state_def)
  have h4: "position_in_lots (holding_state 69991 3000 10)"
    by (simp add: position_in_lots_def holding_state_def lot_position_def)
  have h5: "check_stop_conditions demo_params (holding_state 69991 3000 10) 11 = Some ''take_profit''"
    by (simp add: check_stop_conditions_def holding_state_def lot_position_def demo_params_def
        demo_config_def)
  have h5': "check_stop_conditions demo_params (holding_state 69991 3000 10)
      (close_price (profit_run ! 20)) = Some ''take_profit''"
    using h5 by (simp add: profit_run_facts)
  note t = stop_exit_then_signal_stage[OF h1 h2 h3 h4 h5', where gen = always_buy]
  from t have a: "stop_stage demo_params (holding_state 69991 3000 10) 20 11
       = (holding_state 69991 3000 10)\<lparr> current_capital := current_capital (holding_state 69991 3000 10)
                + (real_of_int (pos_volume (lot_position 3000 10)) * 11
                   - real_of_int (pos_volume (lot_position 3000 10)) * 11 * commission_rate demo_params),
             current_position := None,
             trades := trades (holding_state 69991 3000 10) @
               [\<lparr> timestamp = 20, action = ''sell'', price = 11,
                  volume = pos_volume (lot_position 3000 10),
                  amount = real_of_int (pos_volume (lot_position 3000 10)) * 11,
                  commission = real_of_int (pos_volume (lot_position 3000 10)) * 11 * commission_rate demo_params,
                  reason = ''take_profit'' \<rparr>] \<rparr>"
    by (simp add: profit_run_facts)
  from t have b: "process_bar demo_params always_buy profit_run (holding_state 69991 3000 10) 20
       = update_daily_equity
           (execute_buy demo_params (stop_stage demo_params (holding_state 69991 3000 10) 20 11)
              20 11 1 ''ma'') 20 11"
    by (simp add: profit_run_facts always_buy_def)
  have c: "current_position (stop_stage demo_params (holding_state 69991 3000 10) 20 11) = None"
    unfolding a by simp
  have d: "map reason (trades (stop_stage demo_params (holding_state 69991 3000 10) 20 11)) = [''take_profit'']"
    unfolding a by (simp add: holding_state_def)
  have e: "map volume (trades (stop_stage demo_params (holding_state 69991 3000 10) 20 11)) = [3000]"
    unfolding a by (simp add: holding_state_def lot_position_def)
  show ?thesis using h1 h4 h5 b c d e by blast
qed

subsection \<open>C6: the thresholds of the momentum analyzer\<close>

text \<open>
  C6. The claim: Strong buy when momentum exceeds 5 and the price change exceeds 2 per
  cent. On 20 bars closing at 100 and then 110 the momentum is 10 and the price rises by
  10 per cent, yet the source answers Hold with strength 0: \<open>price_change\<close> is a
  fraction (here 1/10) and the source compares it with 2 and with 1.
\<close>

theorem ten_percent_rise_is_hold:
  "length rising20 = 20
   \<and> map_option last (momentum (map close_price rising20) 10) = Some (Fin 10)
   \<and> map_option last (price_change (map close_price rising20) 1) = Some (Fin (1 / 10))
   \<and> analyze_momentum rising20 = (HOLD, 0, Momentum_unclear)"
proof -
  have "length rising20 = 20" by (simp add: rising20_def length_bars_of)
  then have ne: "rising20 \<noteq> []" by auto
  have cs: "map close_price rising20 = replicate 19 100 @ [110]"
    by (simp add: rising20_def close_prices_bars_of)
  have l: "length rising20 = 20" by (simp add: rising20_def length_bars_of)
  have a: "map_option last (momentum (map close_price rising20) 10) = Some (Fin 10)"
    unfolding cs by (subst momentum_last) (simp_all add: nth_append)
  have b: "map_option last (price_change (map close_price rising20) 1) = Some (Fin (1 / 10))"
    unfolding cs by (subst price_change_last) (simp_all add: nth_append fdiv_def)
  have c: "analyze_momentum rising20 = (HOLD, 0, Momentum_unclear)"
    unfolding analyze_momentum_is_body analyze_momentum_body_eq[OF ne] l cs
    by (simp add: Let_def nth_append fdiv_def)
  show ?thesis using l a b c by blast
qed

subsection \<open>C9: fewer than 20 bars\<close>

text \<open>
  C9. The claim: an analyzer entry point answers Hold with strength 0 on fewer than 20
  bars. The guard tests its first positional argument, which for the decorated methods
  is the strategy instance, so it never returns early. On 11 bars closing at 1 and then
  10 the momentum analyzer answers Strong buy with strength 0.8.
\<close>

theorem short_series_gets_strong_buy:
  "length jump11 = 11
   \<and> validate_data [Instance, Frame jump11] = None
   \<and> analyze_momentum jump11 = (STRONG_BUY, 0.8, Momentum_strong_up)"
proof -
  have "length jump11 = 11" by (simp add: jump11_def length_bars_of)
  then have ne: "jump11 \<noteq> []" by auto
  have cs: "map close_price jump11 = replicate 10 1 @ [10]"
    by (simp add: jump11_def close_prices_bars_of)
  have l: "length jump11 = 11" by (simp add: jump11_def length_bars_of)
  have c: "analyze_momentum jump11 = (STRONG_BUY, 0.8, Momentum_strong_up)"
    unfolding analyze_momentum_is_body analyze_momentum_body_eq[OF ne] l cs
    by (simp add: Let_def nth_append fdiv_def)
  show ?thesis using l c by (simp add: validate_data_def)
qed

subsection \<open>C7: the fixed-amount target\<close>

text \<open>
  C7, as claimed: the target never exceeds 95 per cent of the available cash. With a
  configured amount of 10000 and 10000 in cash the target is 10000.
\<close>

theorem fixed_amount_target_exceeds_95_percent:
  "calculate_fixed_amount_position tight_config 10 10000
     = Inr \<lparr> target_amount = 10000, actual_amount = 10000, size_volume = 1000,
             size_price = 10, size_position_ratio = 1 \<rparr>
   \<and> \<not> (10000 \<le> 0.95 * (10000::real))"
  by (simp add: calculate_fixed_amount_position_def tight_config_def Let_def py_int_def)

text \<open>
  C7, amended. The target is the configured trade amount whenever the available cash is
  at least that amount, and 95 per cent of the available cash only when the cash is
  below it. For non-negative cash the target exceeds neither the cash nor the configured
  amount.
\<close>

theorem fixed_amount_target:
  assumes "px \<noteq> 0"
  shows "\<exists>r. calculate_fixed_amount_position cfg px available_cash = Inr r
     \<and> target_amount r
         = (if available_cash < trade_amount cfg then available_cash * 0.95 else trade_amount cfg)
     \<and> (0 \<le> available_cash \<longrightarrow>
           target_amount r \<le> available_cash \<and> target_amount r \<le> trade_amount cfg)"
  using assms by (simp add: calculate_fixed_amount_position_def Let_def)

theorem fixed_amount_target_witness:
  "(10::real) \<noteq> 0
   \<and> (\<exists>r. calculate_fixed_amount_position tight_config 10 4000 = Inr r
         \<and> target_amount r = 3800 \<and> target_amount r \<le> 4000)"
proof -
  have h: "(10::real) \<noteq> 0" by simp
  from fixed_amount_target[OF h, of tight_config 4000]
  obtain r where r: "calculate_fixed_amount_position tight_config 10 4000 = Inr r"
    "target_amount r = (if (4000::real) < trade_amount tight_config then 4000 * 0.95 else trade_amount tight_config)"
    "(0::real) \<le> 4000 \<longrightarrow> target_amount r \<le> 4000 \<and> target_amount r \<le> trade_amount tight_config"
    by blast
  from r(2) have "target_amount r = 3800" by (simp add: tight_config_def)
  moreover from r(3) have "target_amount r \<le> 4000" by simp
  ultimately show ?thesis using h r(1) by blast
qed

subsection \<open>C8: the maximum drawdown lies between 0 and 1\<close>

text \<open>
  C8. An equity curve is a non-empty series of non-negative values that starts at a
  positive capital. For every such curve the maximum drawdown is a number between 0
  and 1. Every curve that the loop of \<open>run_backtest\<close> records is of this kind (positive
  initial capital, closing prices not negative, commission rate at most one), so the
  bound holds for the drawdown of every run.
\<close>

theorem max_drawdown_between_0_and_1:
  "(xs \<noteq> [] \<and> 0 < hd xs \<and> (\<forall>x\<in>set xs. 0 \<le> x)
      \<longrightarrow> (\<exists>d. calculate_max_drawdown xs = Fin d \<and> 0 \<le> d \<and> d \<le> 1))
   \<and> (0 < initial_capital p \<and> commission_rate p \<le> 1 \<and> (\<forall>b\<in>set df. 0 \<le> close_price b)
       \<and> df \<noteq> []
      \<longrightarrow> (\<exists>d. calculate_max_drawdown (map equity (daily_equity (run_loop p gen df))) = Fin d
              \<and> 0 \<le> d \<and> d \<le> 1))"
proof (intro conjI impI)
  assume "xs \<noteq> [] \<and> 0 < hd xs \<and> (\<forall>x\<in>set xs. 0 \<le> x)"
  then show "\<exists>d. calculate_max_drawdown xs = Fin d \<and> 0 \<le> d \<and> d \<le> 1"
    using max_drawdown_of_unit_loss by blast
next
  assume h: "0 < initial_capital p \<and> commission_rate p \<le> 1 \<and> (\<forall>b\<in>set df. 0 \<le> close_price b)
       \<and> df \<noteq> []"
  let ?es = "map equity (daily_equity (run_loop p gen df))"
  have c: "curve_ok (initial_capital p) (run_loop p gen df)"
    using run_loop_curve[of p df gen] h by simp
  have ne: "?es \<noteq> []" using c by (simp add: curve_ok_def)
  have hd: "0 < hd ?es" using c h by (simp add: curve_ok_def hd_map)
  have nn: "\<forall>x\<in>set ?es. 0 \<le> x" using c by (auto simp: curve_ok_def)
  show "\<exists>d. calculate_max_drawdown ?es = Fin d \<and> 0 \<le> d \<and> d \<le> 1"
    using max_drawdown_of_unit_loss[OF ne hd nn] .
qed

theorem max_drawdown_between_0_and_1_witness:
  "scenario_b \<noteq> [] \<and> 0 < hd scenario_b
   \<and> (\<exists>d. calculate_max_drawdown scenario_b = Fin d \<and> 0 \<le> d \<and> d \<le> 1)
   \<and> 0 < initial_capital demo_params \<and> profit_run \<noteq> []
   \<and> (\<exists>d. calculate_max_drawdown (map equity (daily_equity (run_loop demo_params always_buy profit_run))) = Fin d
              \<and> 0 \<le> d \<and> d \<le> 1)"
proof -
  have h1: "scenario_b \<noteq> [] \<and> 0 < hd scenario_b \<and> (\<forall>x\<in>set scenario_b. 0 \<le> x)"
    by (simp add: scenario_b_def)
  have "length profit_run = 21" by (simp add: profit_run_facts)
  then have ne: "profit_run \<noteq> []" by auto
  have nn: "\<forall>b\<in>set profit_run. 0 \<le> close_price b"
    unfolding profit_run_def by (rule bars_of_nonneg) auto
  have h2: "0 < initial_capital demo_params \<and> commission_rate demo_params \<le> 1
       \<and> (\<forall>b\<in>set profit_run. 0 \<le> close_price b) \<and> profit_run \<noteq> []"
    using ne nn by (simp add: demo_params_def)
  note t = max_drawdown_between_0_and_1[of scenario_b demo_params profit_run always_buy]
  from t h1 have a: "\<exists>d. calculate_max_drawdown scenario_b = Fin d \<and> 0 \<le> d \<and> d \<le> 1" by blast
  from t h2 have b: "\<exists>d. calculate_max_drawdown (map equity (daily_equity (run_loop demo_params always_buy profit_run))) = Fin d
              \<and> 0 \<le> d \<and> d \<le> 1" by blast
  show ?thesis using h1 h2 a b by blast
qed

subsection \<open>C5: the trade statistics\<close>

text \<open>
  C5, as claimed: the profit factor is infinite when there are no losing pairs. A log
  with a single buy has no pair at all, hence no losing pair, and the source returns
  the profit factor 0.
\<close>

theorem no_pairs_gives_zero_profit_factor:
  "trade_pairs buy_only_log = []
   \<and> profit_factor (calculate_trade_statistics buy_only_log) = Fin 0
   \<and> win_rate (calculate_trade_statistics buy_only_log) = 0"
  by (simp add: buy_only_log_def trade_pairs_def calculate_trade_statistics_def Let_def)

text \<open>
  C5, amended. Each buy is paired with the first sell of the log whose timestamp is
  strictly later, whatever the volumes; in a log ordered by time that sell is the
  earliest later one; a buy without a later sell forms no pair. When at least one pair
  exists, the win rate is the fraction of pairs with positive profit and the profit
  factor is the sum of the winning pairs divided by the absolute sum of the losing
  pairs, infinite when no pair loses. When no pair exists, win rate and profit factor
  are both 0.
\<close>

theorem trade_statistics_of_pairs:
  "trade_pairs ts = spec_pairs ts
   \<and> (\<forall>b sl. first_later_sell ts b = Some sl \<longrightarrow>
         sl \<in> set ts \<and> action sl = ''sell'' \<and> timestamp b < timestamp sl
         \<and> (sorted (map timestamp ts) \<longrightarrow>
              (\<forall>t\<in>set ts. action t = ''sell'' \<and> timestamp b < timestamp t
                  \<longrightarrow> timestamp sl \<le> timestamp t)))
   \<and> (trade_pairs ts \<noteq> [] \<longrightarrow>
         win_rate (calculate_trade_statistics ts)
           = real (length (filter (\<lambda>x. x > 0) (trade_pairs ts))) / real (length (trade_pairs ts))
         \<and> profit_factor (calculate_trade_statistics ts)
           = (if filter (\<lambda>x. x < 0) (trade_pairs ts) = [] then PInf
              else Fin (sum_list (filter (\<lambda>x. x > 0) (trade_pairs ts))
                        / \<bar>sum_list (filter (\<lambda>x. x < 0) (trade_pairs ts))\<bar>)))
   \<and> (trade_pairs ts = [] \<longrightarrow>
         win_rate (calculate_trade_statistics ts) = 0
         \<and> profit_factor (calculate_trade_statistics ts) = Fin 0)"
proof (intro conjI allI impI)
  show "trade_pairs ts = spec_pairs ts" by (rule trade_pairs_spec)
next
  fix b sl assume f: "first_later_sell ts b = Some sl"
  show "sl \<in> set ts" "action sl = ''sell''" "timestamp b < timestamp sl"
    using first_later_sell_props[OF f] by blast+
  assume "sorted (map timestamp ts)"
  then show "\<forall>t\<in>set ts. action t = ''sell'' \<and> timestamp b < timestamp t
                  \<longrightarrow> timestamp sl \<le> timestamp t"
    using first_later_sell_props[OF f] by blast
next
  assume ne: "trade_pairs ts \<noteq> []"
  then have ts: "ts \<noteq> []" by (auto simp: trade_pairs_def)
  show "win_rate (calculate_trade_statistics ts)
           = real (length (filter (\<lambda>x. x > 0) (trade_pairs ts))) / real (length (trade_pairs ts))"
    using ne ts by (simp add: calculate_trade_statistics_def Let_def)
  show "profit_factor (calculate_trade_statistics ts)
           = (if filter (\<lambda>x. x < 0) (trade_pairs ts) = [] then PInf
              else Fin (sum_list (filter (\<lambda>x. x > 0) (trade_pairs ts))
                        / \<bar>sum_list (filter (\<lambda>x. x < 0) (trade_pairs ts))\<bar>))"
  proof (cases "filter (\<lambda>x. x < 0) (trade_pairs ts) = []")
    case True
    then show ?thesis using ne ts by (simp add: calculate_trade_statistics_def Let_def)
  next
    case False
    have neg: "sum_list (filter (\<lambda>x. x < 0) (trade_pairs ts)) < 0"
      using losses_sum_negative[OF False] .
    have w: "(if filter (\<lambda>x. x > 0) (trade_pairs ts) \<noteq> [] then sum_list (filter (\<lambda>x. x > 0) (trade_pairs ts)) else 0)
        = sum_list (filter (\<lambda>x. x > 0) (trade_pairs ts))" by simp
    show ?thesis using ne ts False neg
      by (simp add: calculate_trade_statistics_def Let_def w)
  qed
next
  assume e: "trade_pairs ts = []"
  show "win_rate (calculate_trade_statistics ts) = 0"
    using e by (simp add: calculate_trade_statistics_def Let_def)
  show "profit_factor (calculate_trade_statistics ts) = Fin 0"
    using e by (simp add: calculate_trade_statistics_def Let_def)
qed

theorem trade_statistics_of_pairs_witness:
  "trade_pairs mixed_log = [198, - 102]
   \<and> win_rate (calculate_trade_statistics mixed_log) = 1 / 2
   \<and> profit_factor (calculate_trade_statistics mixed_log) = Fin (33 / 17)
   \<and> first_later_sell mixed_log (mixed_log ! 0) = Some (mixed_log ! 1)
   \<and> sorted (map timestamp mixed_log)
   \<and> timestamp (mixed_log ! 1) \<le> timestamp (mixed_log ! 3)
   \<and> trade_pairs buy_only_log = []
   \<and> profit_factor (calculate_trade_statistics buy_only_log) = Fin 0"
proof -
  note t = trade_statistics_of_pairs[of mixed_log]
  note u = trade_statistics_of_pairs[of buy_only_log]
  from t have p: "trade_pairs mixed_log = [198, - 102]" by (simp add: mixed_log_spec_pairs)
  then have ne: "trade_pairs mixed_log \<noteq> []" by simp
  from t ne have w: "win_rate (calculate_trade_statistics mixed_log)
           = real (length (filter (\<lambda>x. x > 0) (trade_pairs mixed_log))) / real (length (trade_pairs mixed_log))"
    by blast
  from t ne have f: "profit_factor (calculate_trade_statistics mixed_log)
           = (if filter (\<lambda>x. x < 0) (trade_pairs mixed_log) = [] then PInf
              else Fin (sum_list (filter (\<lambda>x. x > 0) (trade_pairs mixed_log))
                        / \<bar>sum_list (filter (\<lambda>x. x < 0) (trade_pairs mixed_log))\<bar>))"
    by blast
  have w': "win_rate (calculate_trade_statistics mixed_log) = 1 / 2" unfolding w p by simp
  have f': "profit_factor (calculate_trade_statistics mixed_log) = Fin (33 / 17)" unfolding f p by simp
  have fl: "first_later_sell mixed_log (mixed_log ! 0) = Some (mixed_log ! 1)"
    by (simp add: first_later_sell_def mixed_log_def)
  have srt: "sorted (map timestamp mixed_log)" by (simp add: mixed_log_def)
  from t fl srt have ch: "\<forall>t\<in>set mixed_log. action t = ''sell'' \<and> timestamp (mixed_log ! 0) < timestamp t
          \<longrightarrow> timestamp (mixed_log ! 1) \<le> timestamp t"
    by blast
  have m3: "mixed_log ! 3 \<in> set mixed_log" "action (mixed_log ! 3) = ''sell''"
    "timestamp (mixed_log ! 0) < timestamp (mixed_log ! 3)"
    by (simp_all add: mixed_log_def)
  from ch m3 have ch': "timestamp (mixed_log ! 1) \<le> timestamp (mixed_log ! 3)" by blast
  have e: "trade_pairs buy_only_log = []"
    by (simp add: buy_only_log_def trade_pairs_def Let_def)
  from u e have z: "profit_factor (calculate_trade_statistics buy_only_log) = Fin 0" by blast
  show ?thesis using p w' f' fl srt ch' e z by blast
qed

end
